theory Spec2Isabelle
  imports Main
begin

section \<open>JavaScript values that reach the watcher\<close>

text \<open>
  The error arguments that the Azure client hands to the callbacks of \<open>index.js\<close> are
  untyped JavaScript values. The code inspects them in four ways only: truthiness
  (\<open>if (err)\<close>), strict equality with a string, \<open>typeof err === 'object'\<close> together
  with the \<open>code\<close> property, and conversion to a string (in the constructor of
  \<open>Error\<close> and in a template literal). \<open>Obj c r\<close> is an object whose \<open>code\<close> property
  is \<open>c\<close> (\<open>Undefined\<close> when the property is absent) and that \<open>String\<close> turns into
  the text \<open>r\<close>. \<open>Num n\<close> is the number with the integer value \<open>n\<close>.
\<close>

datatype jsval = Undefined | Null | JBool bool | Num int | Str string | Obj jsval string

fun truthy :: "jsval \<Rightarrow> bool" where
  "truthy Undefined = False"
| "truthy Null = False"
| "truthy (JBool b) = b"
| "truthy (Num n) = (n \<noteq> 0)"
| "truthy (Str s) = (s \<noteq> [])"
| "truthy (Obj c r) = True"

text \<open>\<open>err !== null && typeof err === 'object'\<close> followed by \<open>err.code === '404'\<close>.\<close>

fun is_object_with_code_404 :: "jsval \<Rightarrow> bool" where
  "is_object_with_code_404 (Obj c r) = (c = Str ''404'')"
| "is_object_with_code_404 v = False"

subsection \<open>\<open>String(v)\<close>\<close>

text \<open>
  The decimal numeral of an integer, which is what \<open>String\<close> gives for an integer-valued
  number of magnitude below \<open>10^21\<close>.
\<close>

function decimal_digits :: "nat \<Rightarrow> string \<Rightarrow> string" where
  "decimal_digits n acc =
     (let acc1 = char_of (n mod 10 + 48) # acc
      in if n div 10 = 0 then acc1 else decimal_digits (n div 10) acc1)"
  by pat_completeness auto
termination
  by (relation "measure (\<lambda>(n, acc). n)") auto

declare decimal_digits.simps [simp del]

definition Number_ToString :: "int \<Rightarrow> string" where
  "Number_ToString i =
     (if i < 0 then CHR ''-'' # decimal_digits (nat (- i)) []
      else decimal_digits (nat i) [])"

fun ToString :: "jsval \<Rightarrow> string" where
  "ToString Undefined = ''undefined''"
| "ToString Null = ''null''"
| "ToString (JBool b) = (if b then ''true'' else ''false'')"
| "ToString (Num n) = Number_ToString n"
| "ToString (Str s) = s"
| "ToString (Obj c r) = r"

subsection \<open>\<open>parseInt(str, 10)\<close>\<close>

text \<open>
  Leading white space is skipped, one sign is read, then the longest run of decimal
  digits; no digit at all gives \<open>NaN\<close>, which is \<open>None\<close> here. With the radix given as 10
  no \<open>0x\<close> prefix is recognised. A character is eight bits wide, so the white space
  characters are those below 256. The result is the exact integer; the code's result is
  the double nearest to it, which is the same number for every count of magnitude below
  \<open>2^53\<close>. All counters of the model are exact integers in the same way.
\<close>

definition StrWhiteSpaceChar :: "char \<Rightarrow> bool" where
  "StrWhiteSpaceChar c =
     (of_char c \<in> set [9, 10, 11, 12, 13, 32, 160 :: nat])"

definition is_digit :: "char \<Rightarrow> bool" where
  "is_digit c = (48 \<le> (of_char c :: nat) \<and> (of_char c :: nat) \<le> 57)"

definition digits_value :: "string \<Rightarrow> nat" where
  "digits_value ds = foldl (\<lambda>acc c. 10 * acc + (of_char c - 48)) 0 ds"

definition parseInt :: "string \<Rightarrow> int option" where
  "parseInt str =
     (let s1 = dropWhile StrWhiteSpaceChar str;
          (sign, s2) = (case s1 of
                          [] \<Rightarrow> (1 :: int, [])
                        | c # r \<Rightarrow> if c = CHR ''-'' then (- 1, r)
                                   else if c = CHR ''+'' then (1, r)
                                   else (1, s1));
          ds = takeWhile is_digit s2
      in if ds = [] then None else Some (sign * int (digits_value ds)))"

section \<open>Data of the watcher\<close>

text \<open>
  A queue descriptor as returned by \<open>listQueues\<close>: the name and the raw text of
  \<open>CountDetails['d2p1:ActiveMessageCount']\<close>.
\<close>

record queue =
  QueueName :: string
  ActiveMessageCount :: string

text \<open>\<open>parseInt(q.CountDetails['d2p1:ActiveMessageCount'], 10) || 0\<close>\<close>

definition currentMessagesInQueue :: "queue \<Rightarrow> int" where
  "currentMessagesInQueue q =
     (case parseInt (ActiveMessageCount q) of None \<Rightarrow> 0 | Some n \<Rightarrow> n)"

text \<open>A peek-locked message is an opaque handle.\<close>

datatype queue_message = Message nat

text \<open>
  Class \<open>ErrorMessage\<close>. \<open>super(message)\<close> stores the argument converted to a string
  (the empty string of the prototype when the argument is undefined);
  \<open>originalAzureError\<close> keeps the argument itself.
\<close>

record error_message =
  message :: string
  status :: string
  queueMessage :: "queue_message option"
  originalAzureError :: jsval

definition ErrorMessage :: "jsval \<Rightarrow> string \<Rightarrow> queue_message option \<Rightarrow> error_message" where
  "ErrorMessage m st qm =
     \<lparr>message = (case m of Undefined \<Rightarrow> [] | _ \<Rightarrow> ToString m),
      status = st, queueMessage = qm, originalAzureError = m\<rparr>"

text \<open>Class \<open>DebugMessage\<close>: message and metadata.\<close>

datatype debug_message = DebugMessage string jsval

definition CHECK_CONCURRENCY_TIMER :: int where
  "CHECK_CONCURRENCY_TIMER = 10000"

definition ON_ERROR_READ_MESSAGE_FROM_AZURE :: string where
  "ON_ERROR_READ_MESSAGE_FROM_AZURE = ''on_error_read_message_from_azure''"

definition QUEUE_NOT_FOUND :: string where
  "QUEUE_NOT_FOUND = ''queue_not_found''"

definition ON_UNLOCK_MESSAGE_FROM_AZURE :: string where
  "ON_UNLOCK_MESSAGE_FROM_AZURE = ''on_unlock_message_from_azure''"

definition ON_REMOVE_MESSAGE_FROM_AZURE :: string where
  "ON_REMOVE_MESSAGE_FROM_AZURE = ''on_remove_unlock_message_from_azure''"

definition ON_UNLOCK_MESSAGE_FROM_AZURE_MAX_ATTEMPTS :: string where
  "ON_UNLOCK_MESSAGE_FROM_AZURE_MAX_ATTEMPTS = ''on_unlock_message_from_azure_max_attempts''"

definition ON_DELETE_MESSAGE_FROM_AZURE_MAX_ATTEMPTS :: string where
  "ON_DELETE_MESSAGE_FROM_AZURE_MAX_ATTEMPTS = ''on_delete_message_from_azure_max_attempts''"

definition MAX_THREADS_EXCEEDED :: string where
  "MAX_THREADS_EXCEEDED = ''max_threads_exceeded''"

definition AZURE_NO_MESSAGES :: string where
  "AZURE_NO_MESSAGES = ''No messages to receive''"

text \<open>
  \<open>optionRetryPromise\<close>: retries and maxTimeout. No function below refers to it, as no
  function of \<open>index.js\<close> does.
\<close>

definition optionRetryPromise :: "nat \<times> nat" where
  "optionRetryPromise = (3, 4000)"

text \<open>
  What a promise is rejected with and what a statement throws: an \<open>ErrorMessage\<close>
  instance, or any other value.
\<close>

datatype rejection = Rej_ErrorMessage error_message | Rej_raw jsval

text \<open>
  A thrown value where the code reads it as a plain value again (the \<open>err\<close> of a
  \<open>catch\<close> handler passed on to \<open>new ErrorMessage\<close>). An \<open>ErrorMessage\<close> instance has
  no \<open>code\<close>, and \<open>Error.prototype.toString\<close> prints it.
\<close>

definition jsval_of_rejection :: "rejection \<Rightarrow> jsval" where
  "jsval_of_rejection t =
     (case t of
        Rej_raw v \<Rightarrow> v
      | Rej_ErrorMessage em \<Rightarrow>
          Obj Undefined (if message em = [] then ''Error'' else ''Error: '' @ message em))"

subsection \<open>Listeners of the event emitter\<close>

text \<open>
  \<open>emit('error', e)\<close> calls the listeners registered for \<open>error\<close> in the order of their
  registration, and an exception of a listener leaves \<open>emit\<close> at once. A listener of the
  model is what the user's function does with the emitted arguments: it returns, it
  throws a value of its own, or it throws the \<open>ErrorMessage\<close> object it was given. It
  does not change that object and does not call into the watcher.
\<close>

datatype emit_args = Error_args error_message | Start_error_args error_message

datatype listener_outcome = Returns | Throws_value jsval | Rethrows_ErrorMessage

fun emitted_ErrorMessage :: "emit_args \<Rightarrow> error_message" where
  "emitted_ErrorMessage (Error_args em) = em"
| "emitted_ErrorMessage (Start_error_args em) = em"

fun first_thrown :: "(emit_args \<Rightarrow> listener_outcome) list \<Rightarrow> emit_args \<Rightarrow> rejection option" where
  "first_thrown [] a = None"
| "first_thrown (l # ls) a =
     (case l a of
        Returns \<Rightarrow> first_thrown ls a
      | Throws_value v \<Rightarrow> Some (Rej_raw v)
      | Rethrows_ErrorMessage \<Rightarrow> Some (Rej_ErrorMessage (emitted_ErrorMessage a)))"

text \<open>
  With no listener for \<open>error\<close>, \<open>emit\<close> throws its first argument when that is an
  \<open>Error\<close>, as every \<open>ErrorMessage\<close> is, and otherwise an error of Node's own with the
  code \<open>ERR_UNHANDLED_ERROR\<close>; the first argument of the two-argument call is the
  string \<open>start_error\<close>.
\<close>

definition UNHANDLED_START_ERROR :: jsval where
  "UNHANDLED_START_ERROR =
     Obj (Str ''ERR_UNHANDLED_ERROR'')
       (''Error [ERR_UNHANDLED_ERROR]: Unhandled error. ('' @ [CHR 0x27] @ ''start_error''
          @ [CHR 0x27] @ '')'')"

fun unhandled :: "emit_args \<Rightarrow> rejection" where
  "unhandled (Error_args em) = Rej_ErrorMessage em"
| "unhandled (Start_error_args em) = Rej_raw UNHANDLED_START_ERROR"

text \<open>Listeners for \<open>debug\<close>: \<open>Some v\<close> throws \<open>v\<close>. With none, \<open>emit\<close> just returns.\<close>

fun first_thrown_debug :: "(debug_message \<Rightarrow> jsval option) list \<Rightarrow> debug_message \<Rightarrow> rejection option" where
  "first_thrown_debug [] d = None"
| "first_thrown_debug (l # ls) d =
     (case l d of None \<Rightarrow> first_thrown_debug ls d | Some v \<Rightarrow> Some (Rej_raw v))"

text \<open>The fields of class \<open>ServiceBusAzureWatcher\<close> that the methods read and write.\<close>

record watcher =
  queueName :: string
  concurrency :: int
  queueData :: "queue option"
  isStartRunning :: bool
  maxThreadsCreated :: int
  lastReadMessageAt :: "nat option"
  lastReadMessage :: "queue_message option"
  lastReadErrorMessage :: jsval
  lastJobDoneAt :: "nat option"
  lastJobDone :: "queue_message option"
  lastJobErrorDone :: "rejection option"
  errorListeners :: "(emit_args \<Rightarrow> listener_outcome) list"
  debugListeners :: "(debug_message \<Rightarrow> jsval option) list"

text \<open>The constructor. The new \<open>EventEmitter\<close> has no listener.\<close>

definition ServiceBusAzureWatcher :: "string \<Rightarrow> int \<Rightarrow> watcher" where
  "ServiceBusAzureWatcher qn c =
     \<lparr>queueName = qn, concurrency = c, queueData = None, isStartRunning = False,
      maxThreadsCreated = 0, lastReadMessageAt = None, lastReadMessage = None,
      lastReadErrorMessage = Null, lastJobDoneAt = None, lastJobDone = None,
      lastJobErrorDone = None, errorListeners = [], debugListeners = []\<rparr>"

definition onError :: "watcher \<Rightarrow> (emit_args \<Rightarrow> listener_outcome) \<Rightarrow> watcher" where
  "onError s callback = s\<lparr>errorListeners := errorListeners s @ [callback]\<rparr>"

definition onDebug :: "watcher \<Rightarrow> (debug_message \<Rightarrow> jsval option) \<Rightarrow> watcher" where
  "onDebug s callback = s\<lparr>debugListeners := debugListeners s @ [callback]\<rparr>"

section \<open>Effects\<close>

text \<open>
  Every method runs to completion on the single JavaScript thread and leaves behind
  calls into the Azure client, timers and emitted events. A method of the model returns
  the new state and the list of these effects in program order. The callback that a
  timer or a client call later invokes is a separate step of the model.
  An exception is the last effect of the method that it leaves, \<open>Throws t\<close>; a caller
  that goes on after a call first looks for it, and a \<open>catch\<close> handler takes it off the
  list. The calls into the Azure client and the user's message handler are taken not to
  throw synchronously.
\<close>

datatype task = ReadOneMessageTask | CheckConcurrencyTask | StartCheckerTask

datatype effect =
    Emit_error error_message
  | Emit_start_error error_message
  | Emit_debug debug_message
  | ListQueues
  | ReceiveQueueMessage string
  | UnlockMessage "queue_message option"
  | DeleteMessage "queue_message option"
  | SetTimeout task int
  | OnMessageCallback "queue_message option"
  | Throws rejection

definition thrown :: "effect list \<Rightarrow> rejection option" where
  "thrown es =
     (case rev es of
        [] \<Rightarrow> None
      | e # r \<Rightarrow> (case e of Throws t \<Rightarrow> Some t | _ \<Rightarrow> None))"

definition throwing :: "rejection option \<Rightarrow> effect list" where
  "throwing r = (case r of None \<Rightarrow> [] | Some t \<Rightarrow> [Throws t])"

text \<open>
  \<open>this.myEmitter.emit('error', em)\<close> and
  \<open>this.myEmitter.emit('error', 'start_error', em)\<close>: the exception that the call ends
  with, if any, and the effects of the call.
\<close>

definition emit_throws :: "watcher \<Rightarrow> emit_args \<Rightarrow> rejection option" where
  "emit_throws s a =
     (case errorListeners s of
        [] \<Rightarrow> Some (unhandled a)
      | l # ls \<Rightarrow> first_thrown (l # ls) a)"

definition emit_error :: "watcher \<Rightarrow> error_message \<Rightarrow> effect list" where
  "emit_error s em = Emit_error em # throwing (emit_throws s (Error_args em))"

definition emit_start_error :: "watcher \<Rightarrow> error_message \<Rightarrow> effect list" where
  "emit_start_error s em = Emit_start_error em # throwing (emit_throws s (Start_error_args em))"

definition emit_debug :: "watcher \<Rightarrow> debug_message \<Rightarrow> effect list" where
  "emit_debug s d = Emit_debug d # throwing (first_thrown_debug (debugListeners s) d)"

section \<open>\<open>ServiceBusPrivate\<close>\<close>

text \<open>What \<open>listQueues\<close> passes as \<open>remoteQueues\<close>: an array of queues, or something else
  (kept as the text it prints as).\<close>

datatype remote_queues = Not_array string | Queue_array "queue list"

text \<open>The callback of \<open>getQueueData\<close>: \<open>Inl\<close> rejects the promise, \<open>Inr\<close> resolves it.\<close>

definition getQueueData_cb :: "string \<Rightarrow> jsval \<Rightarrow> remote_queues \<Rightarrow> jsval + queue option" where
  "getQueueData_cb qn err remoteQueues =
     (if truthy err then Inl err
      else case remoteQueues of
             Not_array r \<Rightarrow> Inl (Str (''remoteQueues is not an array: '' @ r))
           | Queue_array qs \<Rightarrow>
               (case filter (\<lambda>q. QueueName q = qn) qs of
                  [] \<Rightarrow> Inr None
                | q # _ \<Rightarrow> Inr (Some q)))"

text \<open>The callbacks of \<open>unlockMessage\<close> and \<open>removeMessage\<close>.\<close>

definition unlockMessage_cb :: "queue_message option \<Rightarrow> jsval \<Rightarrow> rejection + unit" where
  "unlockMessage_cb msg err =
     (if is_object_with_code_404 err
      then Inl (Rej_ErrorMessage (ErrorMessage err ON_UNLOCK_MESSAGE_FROM_AZURE msg))
      else if truthy err then Inl (Rej_raw err)
      else Inr ())"

definition removeMessage_cb :: "queue_message option \<Rightarrow> jsval \<Rightarrow> rejection + unit" where
  "removeMessage_cb msg err =
     (if is_object_with_code_404 err
      then Inl (Rej_ErrorMessage (ErrorMessage err ON_REMOVE_MESSAGE_FROM_AZURE msg))
      else if truthy err then Inl (Rej_raw err)
      else Inr ())"

section \<open>The worker loop\<close>

definition readOneMessage :: "watcher \<Rightarrow> watcher \<times> effect list" where
  "readOneMessage s =
     (if maxThreadsCreated s > concurrency s
      then (let s1 = s\<lparr>maxThreadsCreated := concurrency s\<rparr>
            in (s1, emit_error s1
                      (ErrorMessage (Str MAX_THREADS_EXCEEDED) MAX_THREADS_EXCEEDED None)))
      else (s, [ReceiveQueueMessage (queueName s)]))"

text \<open>
  The callback of \<open>receiveQueueMessage\<close>. \<open>t1\<close> and \<open>t2\<close> are the two readings of
  \<open>Date.now()\<close>: the first at the top of the callback, the second inside the function
  that builds \<open>done\<close>, which runs as soon as a message has arrived.
\<close>

definition receiveQueueMessage_cb ::
  "watcher \<Rightarrow> nat \<Rightarrow> nat \<Rightarrow> jsval \<Rightarrow> queue_message option \<Rightarrow> watcher \<times> effect list" where
  "receiveQueueMessage_cb s t1 t2 err msg =
     (let s1 = s\<lparr>lastReadMessageAt := Some t1, lastReadMessage := msg,
                 lastReadErrorMessage := err\<rparr>
      in if err = Str AZURE_NO_MESSAGES
         then (s1, [SetTimeout ReadOneMessageTask 500])
         else if truthy err
         then (let es = emit_error s1 (ErrorMessage err ON_ERROR_READ_MESSAGE_FROM_AZURE msg)
               in if thrown es \<noteq> None then (s1, es)
                  else (s1, es @ [SetTimeout ReadOneMessageTask 500]))
         else (s1\<lparr>lastJobDoneAt := Some t2, lastJobDone := msg\<rparr>,
               [OnMessageCallback msg]))"

text \<open>The function \<open>done\<close> that the user's handler calls with its error.\<close>

definition done_callback :: "watcher \<Rightarrow> queue_message option \<Rightarrow> jsval \<Rightarrow> watcher \<times> effect list" where
  "done_callback s originalMessage err =
     (if truthy err then (s, [UnlockMessage originalMessage])
      else (s, [DeleteMessage originalMessage]))"

text \<open>The \<open>then\<close> and \<open>catch\<close> handlers on the unlock promise.\<close>

definition unlock_then :: "watcher \<Rightarrow> watcher \<times> effect list" where
  "unlock_then s = readOneMessage s"

definition unlock_catch :: "watcher \<Rightarrow> rejection \<Rightarrow> watcher \<times> effect list" where
  "unlock_catch s err =
     (let s1 = s\<lparr>lastJobErrorDone := Some err\<rparr>;
          es = (case err of Rej_ErrorMessage em \<Rightarrow> emit_error s1 em | Rej_raw v \<Rightarrow> [])
      in if thrown es \<noteq> None then (s1, es)
         else (let (s2, es2) = readOneMessage s1 in (s2, es @ es2)))"

text \<open>The \<open>then\<close> and \<open>catch\<close> handlers on the delete promise.\<close>

definition remove_then :: "watcher \<Rightarrow> watcher \<times> effect list" where
  "remove_then s = readOneMessage s"

definition remove_catch :: "watcher \<Rightarrow> rejection \<Rightarrow> watcher \<times> effect list" where
  "remove_catch s err =
     (let s1 = s\<lparr>lastJobErrorDone := Some err\<rparr>;
          es = (case err of Rej_ErrorMessage em \<Rightarrow> emit_error s1 em | Rej_raw v \<Rightarrow> [])
      in if thrown es \<noteq> None then (s1, es)
         else (let (s2, es2) = readOneMessage s1 in (s2, es @ es2)))"

text \<open>
  The promise settles once the client calls back. In \<open>p.then(f).catch(g)\<close> a rejection
  of \<open>p\<close> runs \<open>g\<close>; a fulfilment runs \<open>f\<close>, and an exception of \<open>f\<close> runs \<open>g\<close> as well.
\<close>

definition unlock_settled :: "watcher \<Rightarrow> queue_message option \<Rightarrow> jsval \<Rightarrow> watcher \<times> effect list" where
  "unlock_settled s msg err =
     (case unlockMessage_cb msg err of
        Inl r \<Rightarrow> unlock_catch s r
      | Inr u \<Rightarrow>
          (let (s1, es1) = unlock_then s
           in case thrown es1 of
                None \<Rightarrow> (s1, es1)
              | Some t \<Rightarrow> (let (s2, es2) = unlock_catch s1 t in (s2, butlast es1 @ es2))))"

definition remove_settled :: "watcher \<Rightarrow> queue_message option \<Rightarrow> jsval \<Rightarrow> watcher \<times> effect list" where
  "remove_settled s msg err =
     (case removeMessage_cb msg err of
        Inl r \<Rightarrow> remove_catch s r
      | Inr u \<Rightarrow>
          (let (s1, es1) = remove_then s
           in case thrown es1 of
                None \<Rightarrow> (s1, es1)
              | Some t \<Rightarrow> (let (s2, es2) = remove_catch s1 t in (s2, butlast es1 @ es2))))"

section \<open>Spin-up\<close>

text \<open>
  The \<open>while\<close> loop of \<open>startReceivingMessages\<close>. \<open>maxCallsInvoked\<close> is the loop
  variable before its pre-increment, \<open>b\<close> is the parsed backlog and \<open>i\<close> the local
  variable of that name, which the source never changes.
\<close>

function startReceivingMessages_loop ::
  "watcher \<Rightarrow> int \<Rightarrow> int \<Rightarrow> int \<Rightarrow> watcher \<times> effect list" where
  "startReceivingMessages_loop s maxCallsInvoked b i =
     (let k = maxCallsInvoked + 1
      in if k < concurrency s \<and> k < b \<and> maxThreadsCreated s < concurrency s
         then (let s1 = s\<lparr>maxThreadsCreated := maxThreadsCreated s + 1\<rparr>;
                   delay = i + 25;
                   (s2, es) = startReceivingMessages_loop s1 k b i
               in (s2, SetTimeout ReadOneMessageTask delay # es))
         else (s, []))"
  by pat_completeness auto
termination
  by (relation "measure (\<lambda>(s, k, b, i). nat (concurrency s - maxThreadsCreated s))") auto

declare startReceivingMessages_loop.simps [simp del]

text \<open>
  \<open>startReceivingMessages\<close> reads \<open>this.queueData.CountDetails\<close>; on a null
  \<open>queueData\<close> that is a TypeError, the value \<open>None\<close> here, raised after the first two
  assignments.
\<close>

definition startReceivingMessages :: "watcher \<Rightarrow> (watcher \<times> effect list) option" where
  "startReceivingMessages s =
     (let i = 0;
          s1 = s\<lparr>isStartRunning := True, maxThreadsCreated := 0\<rparr>
      in case queueData s1 of
           None \<Rightarrow> None
         | Some q \<Rightarrow>
             (let b = currentMessagesInQueue q
              in if b = 0
                 then Some (readOneMessage (s1\<lparr>maxThreadsCreated := maxThreadsCreated s1 + 1\<rparr>))
                 else (let (s2, es) = startReceivingMessages_loop s1 (- 1) b i
                       in Some (s2\<lparr>isStartRunning := False\<rparr>, es))))"

section \<open>The concurrency monitor\<close>

definition checkConcurrency :: "watcher \<Rightarrow> watcher \<times> effect list" where
  "checkConcurrency s = (if queueData s \<noteq> None then (s, [ListQueues]) else (s, []))"

text \<open>The \<open>while\<close> loop of \<open>checkConcurrency\<close>.\<close>

function checkConcurrency_loop :: "watcher \<Rightarrow> watcher \<times> effect list" where
  "checkConcurrency_loop s =
     (if maxThreadsCreated s < concurrency s
      then (let (s1, es1) = readOneMessage (s\<lparr>maxThreadsCreated := maxThreadsCreated s + 1\<rparr>)
            in if thrown es1 \<noteq> None then (s1, es1)
               else (let (s2, es2) = checkConcurrency_loop s1 in (s2, es1 @ es2)))
      else (s, []))"
  by pat_completeness auto
termination
  by (relation "measure (\<lambda>s. nat (concurrency s - maxThreadsCreated s))")
     (auto simp: readOneMessage_def Let_def split: if_splits)

declare checkConcurrency_loop.simps [simp del]

text \<open>The \<open>then\<close> handler of the monitor's lookup.\<close>

definition checkConcurrency_then :: "watcher \<Rightarrow> queue option \<Rightarrow> watcher \<times> effect list" where
  "checkConcurrency_then s qd =
     (case qd of
        None \<Rightarrow>
          (s, SetTimeout CheckConcurrencyTask CHECK_CONCURRENCY_TIMER #
              emit_error s (ErrorMessage (Str (''queue not found: '' @ queueName s))
                              QUEUE_NOT_FOUND None))
      | Some q \<Rightarrow>
          (let s1 = s\<lparr>queueData := Some q\<rparr>;
               b = currentMessagesInQueue q
           in if b = 0
              then (s1\<lparr>maxThreadsCreated := 1\<rparr>,
                    [SetTimeout CheckConcurrencyTask CHECK_CONCURRENCY_TIMER])
              else (let (s2, es) =
                          (if b > concurrency s1 \<and> maxThreadsCreated s1 < concurrency s1
                           then checkConcurrency_loop s1
                           else if b < maxThreadsCreated s1
                           then (s1\<lparr>maxThreadsCreated := b\<rparr>, [])
                           else (s1, []))
                    in if thrown es \<noteq> None then (s2, es)
                       else (s2, es @ [SetTimeout CheckConcurrencyTask
                                         CHECK_CONCURRENCY_TIMER]))))"

text \<open>The \<open>catch\<close> handler of the monitor's lookup.\<close>

definition checkConcurrency_catch :: "watcher \<Rightarrow> jsval \<Rightarrow> watcher \<times> effect list" where
  "checkConcurrency_catch s err =
     (let es = emit_start_error s (ErrorMessage err ''start_error'' None)
      in if thrown es \<noteq> None then (s, es)
         else (s, es @ [SetTimeout CheckConcurrencyTask CHECK_CONCURRENCY_TIMER]))"

text \<open>The lookup's promise settles: \<open>getQueueData(...).then(...).catch(...)\<close>.\<close>

definition checkConcurrency_settled :: "watcher \<Rightarrow> jsval + queue option \<Rightarrow> watcher \<times> effect list" where
  "checkConcurrency_settled s r =
     (case r of
        Inl e \<Rightarrow> checkConcurrency_catch s e
      | Inr qd \<Rightarrow>
          (let (s1, es1) = checkConcurrency_then s qd
           in case thrown es1 of
                None \<Rightarrow> (s1, es1)
              | Some t \<Rightarrow>
                  (let (s2, es2) = checkConcurrency_catch s1 (jsval_of_rejection t)
                   in (s2, butlast es1 @ es2))))"

section \<open>\<open>start\<close>\<close>

definition start :: "watcher \<Rightarrow> watcher \<times> effect list" where
  "start s = (s, [ListQueues])"

definition start_catch :: "watcher \<Rightarrow> jsval \<Rightarrow> watcher \<times> effect list" where
  "start_catch s err = (s, emit_start_error s (ErrorMessage err ''start_error'' None))"

text \<open>
  The TypeError of reading \<open>CountDetails\<close> of null, as V8 words it. It cannot arise
  here, since the handler below has just stored a queue.
\<close>

definition NULL_QUEUE_DATA_ERROR :: jsval where
  "NULL_QUEUE_DATA_ERROR =
     Obj Undefined
       (''TypeError: Cannot read properties of null (reading '' @ [CHR 0x27]
          @ ''CountDetails'' @ [CHR 0x27] @ '')'')"

text \<open>The \<open>then\<close> handler of \<open>start\<close>.\<close>

definition start_then :: "watcher \<Rightarrow> queue option \<Rightarrow> watcher \<times> effect list" where
  "start_then s qd =
     (case qd of
        None \<Rightarrow>
          (s, emit_error s (ErrorMessage (Str (''queue not found: '' @ queueName s))
                              QUEUE_NOT_FOUND None))
      | Some q \<Rightarrow>
          (let s1 = s\<lparr>queueData := Some q\<rparr>
           in case startReceivingMessages s1 of
                None \<Rightarrow> (s1\<lparr>isStartRunning := True, maxThreadsCreated := 0\<rparr>,
                          [Throws (Rej_raw NULL_QUEUE_DATA_ERROR)])
              | Some (s2, es) \<Rightarrow>
                  if thrown es \<noteq> None then (s2, es)
                  else (s2, es @ [SetTimeout StartCheckerTask CHECK_CONCURRENCY_TIMER])))"

text \<open>The lookup's promise settles: \<open>getQueueData(...).then(...).catch(...)\<close>.\<close>

definition start_settled :: "watcher \<Rightarrow> jsval + queue option \<Rightarrow> watcher \<times> effect list" where
  "start_settled s r =
     (case r of
        Inl e \<Rightarrow> start_catch s e
      | Inr qd \<Rightarrow>
          (let (s1, es1) = start_then s qd
           in case thrown es1 of
                None \<Rightarrow> (s1, es1)
              | Some t \<Rightarrow>
                  (let (s2, es2) = start_catch s1 (jsval_of_rejection t)
                   in (s2, butlast es1 @ es2))))"

text \<open>The timer set by \<open>start\<close>: a debug event, then the first monitor tick.\<close>

definition start_checker :: "watcher \<Rightarrow> watcher \<times> effect list" where
  "start_checker s =
     (let es = emit_debug s (DebugMessage ''starting concurrency checker'' Null)
      in if thrown es \<noteq> None then (s, es)
         else (let (s1, es1) = checkConcurrency s in (s1, es @ es1)))"

section \<open>\<open>getWatcherInfo\<close>\<close>

text \<open>The object that \<open>getWatcherInfo\<close> returns, the \<open>history\<close> sub-objects flattened.\<close>

record watcher_info =
  info_isStartRunning :: bool
  info_queueName :: string
  info_concurrency :: int
  info_maxThreadsCreated :: int
  info_queueData :: "queue option"
  info_currentMessagesInQueue :: int
  info_lastReadMessageAt :: "nat option"
  info_lastReadMessage :: "queue_message option"
  info_lastReadErrorMessage :: jsval
  info_lastJobDoneAt :: "nat option"
  info_lastJobDone :: "queue_message option"
  info_lastJobErrorDone :: "rejection option"

text \<open>\<open>x || null\<close> on a time stamp, on an error value and on a rejection.\<close>

definition time_or_null :: "nat option \<Rightarrow> nat option" where
  "time_or_null t = (case t of None \<Rightarrow> None | Some n \<Rightarrow> if n = 0 then None else Some n)"

definition jsval_or_null :: "jsval \<Rightarrow> jsval" where
  "jsval_or_null v = (if truthy v then v else Null)"

definition rejection_or_null :: "rejection option \<Rightarrow> rejection option" where
  "rejection_or_null r =
     (case r of
        None \<Rightarrow> None
      | Some (Rej_ErrorMessage em) \<Rightarrow> r
      | Some (Rej_raw v) \<Rightarrow> if truthy v then r else None)"

definition getWatcherInfo :: "watcher \<Rightarrow> watcher_info" where
  "getWatcherInfo s =
     \<lparr>info_isStartRunning = isStartRunning s,
      info_queueName = queueName s,
      info_concurrency = concurrency s,
      info_maxThreadsCreated =
        (if maxThreadsCreated s \<noteq> 0 then maxThreadsCreated s else - 2),
      info_queueData = queueData s,
      info_currentMessagesInQueue =
        (case queueData s of Some q \<Rightarrow> currentMessagesInQueue q | None \<Rightarrow> - 1),
      info_lastReadMessageAt = time_or_null (lastReadMessageAt s),
      info_lastReadMessage = lastReadMessage s,
      info_lastReadErrorMessage = jsval_or_null (lastReadErrorMessage s),
      info_lastJobDoneAt = time_or_null (lastJobDoneAt s),
      info_lastJobDone = lastJobDone s,
      info_lastJobErrorDone = rejection_or_null (lastJobErrorDone s)\<rparr>"

section \<open>Executions\<close>

text \<open>
  What the environment can do to a watcher: register a listener, call \<open>start\<close>, answer
  a lookup, fire a timer, answer a receive call, have the user's handler call \<open>done\<close>,
  answer an unlock or a delete call. Every event is accepted in every state, so the
  executions of the model include every execution of the program. An exception that no
  handler of the watcher catches stays in the effects of the step as \<open>Throws t\<close>.
\<close>

datatype event =
    OnError_called "emit_args \<Rightarrow> listener_outcome"
  | OnDebug_called "debug_message \<Rightarrow> jsval option"
  | Start_called
  | Start_lookup jsval remote_queues
  | Check_lookup jsval remote_queues
  | Timeout task
  | Receive_answer nat nat jsval "queue_message option"
  | Done_called "queue_message option" jsval
  | Unlock_answer "queue_message option" jsval
  | Delete_answer "queue_message option" jsval

fun step :: "watcher \<Rightarrow> event \<Rightarrow> watcher \<times> effect list" where
  "step s (OnError_called callback) = (onError s callback, [])"
| "step s (OnDebug_called callback) = (onDebug s callback, [])"
| "step s Start_called = start s"
| "step s (Start_lookup err rq) = start_settled s (getQueueData_cb (queueName s) err rq)"
| "step s (Check_lookup err rq) =
     checkConcurrency_settled s (getQueueData_cb (queueName s) err rq)"
| "step s (Timeout ReadOneMessageTask) = readOneMessage s"
| "step s (Timeout CheckConcurrencyTask) = checkConcurrency s"
| "step s (Timeout StartCheckerTask) = start_checker s"
| "step s (Receive_answer t1 t2 err msg) = receiveQueueMessage_cb s t1 t2 err msg"
| "step s (Done_called msg err) = done_callback s msg err"
| "step s (Unlock_answer msg err) = unlock_settled s msg err"
| "step s (Delete_answer msg err) = remove_settled s msg err"

text \<open>Running a list of events: the final state and all effects in order.\<close>

fun run :: "watcher \<Rightarrow> event list \<Rightarrow> watcher \<times> effect list" where
  "run s [] = (s, [])"
| "run s (e # evs) =
     (let (s1, es1) = step s e;
          (s2, es2) = run s1 evs
      in (s2, es1 @ es2))"

text \<open>Selections from an effect list.\<close>

fun is_emit :: "effect \<Rightarrow> bool" where
  "is_emit (Emit_error em) = True"
| "is_emit (Emit_start_error em) = True"
| "is_emit e = False"

fun is_receive :: "effect \<Rightarrow> bool" where
  "is_receive (ReceiveQueueMessage qn) = True"
| "is_receive e = False"

fun emitted_status :: "effect \<Rightarrow> string option" where
  "emitted_status (Emit_error em) = Some (status em)"
| "emitted_status (Emit_start_error em) = Some (status em)"
| "emitted_status e = None"

fun is_client_call :: "effect \<Rightarrow> bool" where
  "is_client_call ListQueues = True"
| "is_client_call (UnlockMessage m) = True"
| "is_client_call (DeleteMessage m) = True"
| "is_client_call e = False"

text \<open>A timer that launches a worker loop; any call into the Azure client.\<close>

fun is_launch_timer :: "effect \<Rightarrow> bool" where
  "is_launch_timer (SetTimeout ReadOneMessageTask d) = True"
| "is_launch_timer e = False"


text \<open>An emitted event that carries one of the two retry-exhaustion statuses.\<close>

definition reserved_status :: "effect \<Rightarrow> bool" where
  "reserved_status e =
     (emitted_status e = Some ON_UNLOCK_MESSAGE_FROM_AZURE_MAX_ATTEMPTS \<or>
      emitted_status e = Some ON_DELETE_MESSAGE_FROM_AZURE_MAX_ATTEMPTS)"

text \<open>The ceiling is a positive integer and the counter is not above it.\<close>

definition within_ceiling :: "watcher \<Rightarrow> bool" where
  "within_ceiling s = (1 \<le> concurrency s \<and> maxThreadsCreated s \<le> concurrency s)"

text \<open>
  Concrete data for the examples: a queue named \<open>orders\<close> whose count field holds the
  text \<open>n\<close>, and a watcher with ceiling \<open>c\<close> that has captured it.
\<close>

definition orders_queue :: "string \<Rightarrow> queue" where
  "orders_queue n = \<lparr>QueueName = ''orders'', ActiveMessageCount = n\<rparr>"

definition waiting_watcher :: "string \<Rightarrow> int \<Rightarrow> watcher" where
  "waiting_watcher n c =
     (ServiceBusAzureWatcher ''orders'' c)\<lparr>queueData := Some (orders_queue n)\<rparr>"

section \<open>Auxiliary facts\<close>


lemmas parseInt_defs = parseInt_def StrWhiteSpaceChar_def is_digit_def digits_value_def

lemma parseInt_examples:
  "parseInt ''0'' = Some 0"
  "parseInt ''2'' = Some 2"
  "parseInt ''3'' = Some 3"
  "parseInt ''8'' = Some 8"
  "parseInt ''n/a'' = None"
  by (simp_all add: parseInt_defs)

lemma orders_queue_backlog:
  "currentMessagesInQueue (orders_queue ''0'') = 0"
  "currentMessagesInQueue (orders_queue ''2'') = 2"
  "currentMessagesInQueue (orders_queue ''3'') = 3"
  "currentMessagesInQueue (orders_queue ''8'') = 8"
  by (simp_all add: currentMessagesInQueue_def orders_queue_def parseInt_examples)

lemma waiting_watcher_fields:
  "concurrency (waiting_watcher n c) = c"
  "queueData (waiting_watcher n c) = Some (orders_queue n)"
  "queueName (waiting_watcher n c) = ''orders''"
  "maxThreadsCreated (waiting_watcher n c) = 0"
  by (simp_all add: waiting_watcher_def ServiceBusAzureWatcher_def)

lemma filter_replicate_all: "P x \<Longrightarrow> filter P (replicate n x) = replicate n x"
  by (induction n) simp_all

lemma filter_replicate_none: "\<not> P x \<Longrightarrow> filter P (replicate n x) = []"
  by (induction n) simp_all

subsection \<open>Exceptions in an effect list\<close>

lemma thrown_Nil [simp]: "thrown [] = None"
  by (simp add: thrown_def)

lemma thrown_snoc [simp]:
  "thrown (es @ [e]) = (case e of Throws t \<Rightarrow> Some t | _ \<Rightarrow> None)"
  by (simp add: thrown_def)

lemma thrown_single [simp]:
  "thrown [e] = (case e of Throws t \<Rightarrow> Some t | _ \<Rightarrow> None)"
  by (simp add: thrown_def)

lemma thrown_Cons [simp]: "es \<noteq> [] \<Longrightarrow> thrown (e # es) = thrown es"
  by (cases es rule: rev_cases) (simp_all add: thrown_def)

lemma thrown_replicate_plain:
  assumes "\<And>t. x \<noteq> Throws t"
  shows "thrown (replicate n x) = None"
proof (cases n)
  case 0
  then show ?thesis by simp
next
  case (Suc m)
  have "replicate (Suc m) x = replicate m x @ [x]"
    by (simp add: replicate_append_same)
  then have "thrown (replicate (Suc m) x) = (case x of Throws t \<Rightarrow> Some t | _ \<Rightarrow> None)"
    by (simp only: thrown_snoc)
  moreover have "(case x of Throws t \<Rightarrow> Some t | _ \<Rightarrow> None) = None"
    using assms by (cases x) auto
  ultimately show ?thesis
    using Suc by simp
qed

lemma thrown_replicate:
  "thrown (replicate n (SetTimeout k d)) = None"
  "thrown (replicate n (ReceiveQueueMessage q)) = None"
  by (simp_all add: thrown_replicate_plain)

lemma thrown_last: "thrown es = Some t \<Longrightarrow> es = butlast es @ [Throws t]"
  by (cases es rule: rev_cases) (auto simp: thrown_def split: effect.splits)

lemma thrown_throwing [simp]: "thrown (e # throwing r) = (if r = None then thrown [e] else r)"
  by (cases r) (simp_all add: throwing_def)

lemma butlast_throwing [simp]: "r \<noteq> None \<Longrightarrow> butlast (e # throwing r) = [e]"
  by (cases r) (simp_all add: throwing_def)


subsection \<open>What a listener can throw\<close>



subsection \<open>The two loops\<close>

lemma srm_loop_concurrency:
  "concurrency (fst (startReceivingMessages_loop s k b i)) = concurrency s"
proof (induction s k b i rule: startReceivingMessages_loop.induct)
  case (1 s k b i)
  show ?case
    using "1.IH"
    by (subst startReceivingMessages_loop.simps) (simp add: Let_def case_prod_beta)
qed

lemma srm_loop_queueName:
  "queueName (fst (startReceivingMessages_loop s k b i)) = queueName s"
proof (induction s k b i rule: startReceivingMessages_loop.induct)
  case (1 s k b i)
  show ?case
    using "1.IH"
    by (subst startReceivingMessages_loop.simps) (simp add: Let_def case_prod_beta)
qed

lemma srm_loop_bounded:
  "maxThreadsCreated s \<le> concurrency s \<Longrightarrow>
   maxThreadsCreated (fst (startReceivingMessages_loop s k b i)) \<le> concurrency s"
proof (induction s k b i rule: startReceivingMessages_loop.induct)
  case (1 s k b i)
  show ?case
    using "1.IH" "1.prems"
    by (subst startReceivingMessages_loop.simps) (simp add: Let_def case_prod_beta)
qed

text \<open>
  While the counter runs one ahead of \<open>maxCallsInvoked\<close>, the loop sets as many timers
  as there is room below both the ceiling and the backlog, each with the delay \<open>i + 25\<close>.
\<close>

lemma srm_loop_effects:
  "maxThreadsCreated s = k + 1 \<Longrightarrow>
   snd (startReceivingMessages_loop s k b i) =
     replicate (nat (min (concurrency s) b - (k + 1))) (SetTimeout ReadOneMessageTask (i + 25))"
proof (induction s k b i rule: startReceivingMessages_loop.induct)
  case (1 s k b i)
  show ?case
  proof (cases "k + 1 < concurrency s \<and> k + 1 < b \<and> maxThreadsCreated s < concurrency s")
    case True
    let ?s1 = "s\<lparr>maxThreadsCreated := maxThreadsCreated s + 1\<rparr>"
    have ih: "snd (startReceivingMessages_loop ?s1 (k + 1) b i) =
      replicate (nat (min (concurrency s) b - (k + 1 + 1)))
        (SetTimeout ReadOneMessageTask (i + 25))"
      using "1.IH"[of "k + 1" ?s1 "i + 25"] True "1.prems" by simp
    have "nat (min (concurrency s) b - (k + 1)) =
          Suc (nat (min (concurrency s) b - (k + 1 + 1)))"
      using True by auto
    then show ?thesis
      using True ih
      by (subst startReceivingMessages_loop.simps) (simp add: Let_def case_prod_beta)
  next
    case False
    then have n: "nat (min (concurrency s) b - (k + 1)) = 0"
      using "1.prems" by auto
    have "startReceivingMessages_loop s k b i = (s, [])"
      using False by (subst startReceivingMessages_loop.simps) (auto simp: Let_def)
    with n show ?thesis by simp
  qed
qed

lemma cc_loop_result:
  "maxThreadsCreated s \<le> concurrency s \<Longrightarrow>
   checkConcurrency_loop s =
     (s\<lparr>maxThreadsCreated := concurrency s\<rparr>,
      replicate (nat (concurrency s - maxThreadsCreated s)) (ReceiveQueueMessage (queueName s)))"
proof (induction s rule: checkConcurrency_loop.induct)
  case (1 s)
  show ?case
  proof (cases "maxThreadsCreated s < concurrency s")
    case True
    let ?s1 = "s\<lparr>maxThreadsCreated := maxThreadsCreated s + 1\<rparr>"
    have r: "readOneMessage ?s1 = (?s1, [ReceiveQueueMessage (queueName s)])"
      using True by (simp add: readOneMessage_def)
    have ih: "checkConcurrency_loop ?s1 =
      (?s1\<lparr>maxThreadsCreated := concurrency ?s1\<rparr>,
       replicate (nat (concurrency ?s1 - maxThreadsCreated ?s1))
         (ReceiveQueueMessage (queueName ?s1)))"
      using "1.IH"[OF True r[symmetric] refl] True by simp
    have n: "nat (concurrency s - maxThreadsCreated s) =
             Suc (nat (concurrency s - (maxThreadsCreated s + 1)))"
      using True by auto
    show ?thesis
      using True r ih n
      by (subst checkConcurrency_loop.simps) simp
  next
    case False
    with "1.prems" have "maxThreadsCreated s = concurrency s" by simp
    then show ?thesis
      using False by (subst checkConcurrency_loop.simps) simp
  qed
qed

lemma startReceivingMessages_effects:
  assumes "queueData s = Some q"
  shows "map_option snd (startReceivingMessages s) =
     Some (if currentMessagesInQueue q = 0
           then snd (readOneMessage (s\<lparr>isStartRunning := True, maxThreadsCreated := 1\<rparr>))
           else replicate (nat (min (concurrency s) (currentMessagesInQueue q)))
                  (SetTimeout ReadOneMessageTask 25))"
proof (cases "currentMessagesInQueue q = 0")
  case True
  with assms show ?thesis
    by (simp add: startReceivingMessages_def)
next
  case False
  let ?s1 = "s\<lparr>isStartRunning := True, maxThreadsCreated := 0\<rparr>"
  have "snd (startReceivingMessages_loop ?s1 (- 1) (currentMessagesInQueue q) 0) =
     replicate (nat (min (concurrency ?s1) (currentMessagesInQueue q) - (- 1 + 1)))
       (SetTimeout ReadOneMessageTask (0 + 25))"
    by (rule srm_loop_effects) simp
  with assms False show ?thesis
    by (simp add: startReceivingMessages_def Let_def case_prod_beta)
qed

subsection \<open>The counter stays within the ceiling\<close>

lemma readOneMessage_keeps:
  "within_ceiling s \<Longrightarrow> readOneMessage s = (s, [ReceiveQueueMessage (queueName s)])"
  by (simp add: within_ceiling_def readOneMessage_def)

lemma readOneMessage_state:
  "1 \<le> concurrency s \<Longrightarrow>
   within_ceiling (fst (readOneMessage s)) \<and>
   concurrency (fst (readOneMessage s)) = concurrency s \<and>
   queueName (fst (readOneMessage s)) = queueName s"
  by (simp add: within_ceiling_def readOneMessage_def Let_def)

lemma startReceivingMessages_within:
  assumes "1 \<le> concurrency s" and "startReceivingMessages s = Some (s', es)"
  shows "within_ceiling s' \<and> concurrency s' = concurrency s \<and> queueName s' = queueName s"
proof (cases "queueData s")
  case None
  with assms show ?thesis by (simp add: startReceivingMessages_def)
next
  case (Some q)
  let ?s1 = "s\<lparr>isStartRunning := True, maxThreadsCreated := 0\<rparr>"
  let ?l = "startReceivingMessages_loop ?s1 (- 1) (currentMessagesInQueue q) 0"
  show ?thesis
  proof (cases "currentMessagesInQueue q = 0")
    case True
    with assms Some show ?thesis
      by (auto simp: startReceivingMessages_def readOneMessage_def within_ceiling_def)
  next
    case False
    have b: "maxThreadsCreated (fst ?l) \<le> concurrency ?s1"
      by (rule srm_loop_bounded) (use assms in simp)
    have c: "concurrency (fst ?l) = concurrency ?s1"
      by (rule srm_loop_concurrency)
    have d: "queueName (fst ?l) = queueName ?s1"
      by (rule srm_loop_queueName)
    from assms Some False b c d show ?thesis
      by (auto simp: startReceivingMessages_def within_ceiling_def Let_def split: prod.splits)
  qed
qed

lemma start_then_within:
  assumes "within_ceiling s"
  shows "within_ceiling (fst (start_then s qd)) \<and>
         concurrency (fst (start_then s qd)) = concurrency s \<and>
         queueName (fst (start_then s qd)) = queueName s"
proof (cases qd)
  case None
  with assms show ?thesis by (simp add: start_then_def)
next
  case (Some q)
  let ?s1 = "s\<lparr>queueData := Some q\<rparr>"
  show ?thesis
  proof (cases "startReceivingMessages ?s1")
    case None
    then show ?thesis
      by (simp add: startReceivingMessages_def Let_def case_prod_beta split: if_splits)
  next
    case (Some r)
    obtain s2 es where r: "r = (s2, es)" by (cases r)
    have "within_ceiling s2 \<and> concurrency s2 = concurrency ?s1 \<and> queueName s2 = queueName ?s1"
      using startReceivingMessages_within[of ?s1 s2 es] Some r assms
      by (simp add: within_ceiling_def)
    with Some r \<open>qd = Some q\<close> show ?thesis
      by (simp add: start_then_def)
  qed
qed

lemma start_settled_within:
  assumes "within_ceiling s"
  shows "within_ceiling (fst (start_settled s r)) \<and>
         concurrency (fst (start_settled s r)) = concurrency s \<and>
         queueName (fst (start_settled s r)) = queueName s"
  using assms start_then_within[OF assms]
  by (auto simp: start_settled_def start_catch_def case_prod_beta
      split: sum.splits option.splits)

lemma checkConcurrency_then_within:
  assumes "within_ceiling s"
  shows "within_ceiling (fst (checkConcurrency_then s qd)) \<and>
         concurrency (fst (checkConcurrency_then s qd)) = concurrency s \<and>
         queueName (fst (checkConcurrency_then s qd)) = queueName s"
proof (cases qd)
  case None
  with assms show ?thesis by (simp add: checkConcurrency_then_def)
next
  case (Some q)
  let ?s1 = "s\<lparr>queueData := Some q\<rparr>"
  have l: "checkConcurrency_loop ?s1 = (?s1\<lparr>maxThreadsCreated := concurrency ?s1\<rparr>,
      replicate (nat (concurrency ?s1 - maxThreadsCreated ?s1))
        (ReceiveQueueMessage (queueName ?s1)))"
    by (rule cc_loop_result) (use assms in \<open>simp add: within_ceiling_def\<close>)
  from assms Some l show ?thesis
    by (auto simp: checkConcurrency_then_def within_ceiling_def Let_def)
qed

lemma checkConcurrency_settled_within:
  assumes "within_ceiling s"
  shows "within_ceiling (fst (checkConcurrency_settled s r)) \<and>
         concurrency (fst (checkConcurrency_settled s r)) = concurrency s \<and>
         queueName (fst (checkConcurrency_settled s r)) = queueName s"
  using assms checkConcurrency_then_within[OF assms]
  by (auto simp: checkConcurrency_settled_def checkConcurrency_catch_def case_prod_beta Let_def
      split: sum.splits option.splits)

lemma catch_within:
  assumes "within_ceiling s"
  shows "within_ceiling (fst (unlock_catch s r)) \<and>
         concurrency (fst (unlock_catch s r)) = concurrency s \<and>
         queueName (fst (unlock_catch s r)) = queueName s"
    and "within_ceiling (fst (remove_catch s r)) \<and>
         concurrency (fst (remove_catch s r)) = concurrency s \<and>
         queueName (fst (remove_catch s r)) = queueName s"
  using assms
  by (auto simp: unlock_catch_def remove_catch_def readOneMessage_def within_ceiling_def Let_def)

lemma settled_state_within:
  assumes "within_ceiling s"
  shows "within_ceiling (fst (unlock_settled s msg e)) \<and>
         concurrency (fst (unlock_settled s msg e)) = concurrency s \<and>
         queueName (fst (unlock_settled s msg e)) = queueName s"
    and "within_ceiling (fst (remove_settled s msg e)) \<and>
         concurrency (fst (remove_settled s msg e)) = concurrency s \<and>
         queueName (fst (remove_settled s msg e)) = queueName s"
  using assms catch_within[OF assms]
  by (auto simp: unlock_settled_def remove_settled_def unlock_then_def remove_then_def
      readOneMessage_keeps split: sum.splits)

lemma step_within:
  assumes "within_ceiling s"
  shows "within_ceiling (fst (step s e)) \<and>
         concurrency (fst (step s e)) = concurrency s \<and>
         queueName (fst (step s e)) = queueName s"
proof (cases e)
  case (OnError_called l)
  with assms show ?thesis by (simp add: onError_def within_ceiling_def)
next
  case (OnDebug_called l)
  with assms show ?thesis by (simp add: onDebug_def within_ceiling_def)
next
  case Start_called
  with assms show ?thesis by (simp add: start_def)
next
  case (Start_lookup err rq)
  with start_settled_within[OF assms] show ?thesis by simp
next
  case (Check_lookup err rq)
  with checkConcurrency_settled_within[OF assms] show ?thesis by simp
next
  case (Timeout t)
  with assms show ?thesis
    by (cases t)
       (simp_all add: readOneMessage_keeps checkConcurrency_def start_checker_def Let_def)
next
  case (Receive_answer t1 t2 err msg)
  with assms show ?thesis
    by (simp add: receiveQueueMessage_cb_def within_ceiling_def Let_def)
next
  case (Done_called msg err)
  with assms show ?thesis by (simp add: done_callback_def)
next
  case (Unlock_answer msg err)
  with settled_state_within(1)[OF assms] show ?thesis by simp
next
  case (Delete_answer msg err)
  with settled_state_within(2)[OF assms] show ?thesis by simp
qed

lemma run_within:
  "within_ceiling s \<Longrightarrow>
   within_ceiling (fst (run s evs)) \<and>
   concurrency (fst (run s evs)) = concurrency s \<and>
   queueName (fst (run s evs)) = queueName s"
proof (induction evs arbitrary: s)
  case Nil
  then show ?case by simp
next
  case (Cons e evs)
  have a: "within_ceiling (fst (step s e))"
    and b: "concurrency (fst (step s e)) = concurrency s \<and>
            queueName (fst (step s e)) = queueName s"
    using step_within[OF Cons.prems] by simp_all
  from Cons.IH[OF a] b show ?case
    by (simp add: case_prod_beta)
qed

lemma new_within: "1 \<le> c \<Longrightarrow> within_ceiling (ServiceBusAzureWatcher qn c)"
  by (simp add: within_ceiling_def ServiceBusAzureWatcher_def)

lemma reachable_within:
  assumes "1 \<le> c"
  shows "within_ceiling (fst (run (ServiceBusAzureWatcher qn c) evs))"
    and "queueName (fst (run (ServiceBusAzureWatcher qn c) evs)) = qn"
  using run_within[OF new_within[OF assms], of qn evs]
  by (simp_all add: ServiceBusAzureWatcher_def)

subsection \<open>What the completion handlers leave behind\<close>

lemma emit_throws_lastJobErrorDone [simp]:
  "emit_throws (s\<lparr>lastJobErrorDone := x\<rparr>) a = emit_throws s a"
  by (simp add: emit_throws_def)

lemma settled_within:
  assumes "within_ceiling s"
  shows "snd (unlock_settled s msg e) =
           (if is_object_with_code_404 e
            then Emit_error (ErrorMessage e ON_UNLOCK_MESSAGE_FROM_AZURE msg) #
                 (case emit_throws s
                         (Error_args (ErrorMessage e ON_UNLOCK_MESSAGE_FROM_AZURE msg)) of
                    None \<Rightarrow> [ReceiveQueueMessage (queueName s)]
                  | Some t \<Rightarrow> [Throws t])
            else [ReceiveQueueMessage (queueName s)])"
    and "snd (remove_settled s msg e) =
           (if is_object_with_code_404 e
            then Emit_error (ErrorMessage e ON_REMOVE_MESSAGE_FROM_AZURE msg) #
                 (case emit_throws s
                         (Error_args (ErrorMessage e ON_REMOVE_MESSAGE_FROM_AZURE msg)) of
                    None \<Rightarrow> [ReceiveQueueMessage (queueName s)]
                  | Some t \<Rightarrow> [Throws t])
            else [ReceiveQueueMessage (queueName s)])"
  using assms
  by (auto simp: unlock_settled_def unlock_then_def unlock_catch_def unlockMessage_cb_def
      remove_settled_def remove_then_def remove_catch_def removeMessage_cb_def
      readOneMessage_def within_ceiling_def emit_error_def throwing_def Let_def
      split: option.splits)

subsection \<open>No step emits a retry-exhaustion status or repeats a client call\<close>

lemma reserved_status_plain [simp]:
  "reserved_status (Emit_debug d) = False"
  "reserved_status ListQueues = False"
  "reserved_status (ReceiveQueueMessage q) = False"
  "reserved_status (UnlockMessage m) = False"
  "reserved_status (DeleteMessage m) = False"
  "reserved_status (SetTimeout k n) = False"
  "reserved_status (OnMessageCallback m) = False"
  "reserved_status (Throws t) = False"
  by (simp_all add: reserved_status_def)

lemma throwing_quiet [simp]:
  "filter reserved_status (throwing r) = []"
  "filter is_client_call (throwing r) = []"
  by (cases r; simp add: throwing_def)+




















section \<open>The claims\<close>

text \<open>
  C1. With a positive ceiling, in every state that any sequence of events leads to from
  a freshly constructed watcher, \<open>maxThreadsCreated\<close> is at most \<open>concurrency\<close>. And in
  any state at all where \<open>readOneMessage\<close> finds the counter above the ceiling, it
  emits one error event, of status \<open>max_threads_exceeded\<close>, sets the counter to the
  ceiling and makes no receive call.
\<close>

theorem maxThreadsCreated_within_concurrency:
  assumes "1 \<le> c"
  shows "maxThreadsCreated (fst (run (ServiceBusAzureWatcher qn c) evs))
           \<le> concurrency (fst (run (ServiceBusAzureWatcher qn c) evs))
       \<and> (concurrency s < maxThreadsCreated s \<longrightarrow>
            map emitted_status (filter is_emit (snd (readOneMessage s)))
              = [Some ''max_threads_exceeded'']
          \<and> maxThreadsCreated (fst (readOneMessage s)) = concurrency s
          \<and> concurrency (fst (readOneMessage s)) = concurrency s
          \<and> filter is_receive (snd (readOneMessage s)) = [])"
proof -
  have "within_ceiling (fst (run (ServiceBusAzureWatcher qn c) evs))"
    using reachable_within(1)[OF assms] .
  moreover have "filter is_emit (throwing r) = []" "filter is_receive (throwing r) = []" for r
    by (cases r; simp add: throwing_def)+
  ultimately show ?thesis
    by (simp add: within_ceiling_def readOneMessage_def Let_def emit_error_def
        ErrorMessage_def MAX_THREADS_EXCEEDED_def)
qed

theorem maxThreadsCreated_within_concurrency_witness:
  "(1::int) \<le> 2
   \<and> maxThreadsCreated (fst (run (ServiceBusAzureWatcher ''orders'' 2)
        [Start_called, Start_lookup Null (Queue_array [orders_queue ''0'']),
         Timeout StartCheckerTask, Check_lookup Null (Queue_array [orders_queue ''8''])])) = 2
   \<and> map emitted_status (filter is_emit (snd (readOneMessage
        ((ServiceBusAzureWatcher ''orders'' 2)\<lparr>maxThreadsCreated := 3\<rparr>))))
       = [Some ''max_threads_exceeded'']"
  using maxThreadsCreated_within_concurrency[where c = 2
        and s = "(ServiceBusAzureWatcher ''orders'' 2)\<lparr>maxThreadsCreated := 3\<rparr>"
        and qn = "''orders''" and evs =
        "[Start_called, Start_lookup Null (Queue_array [orders_queue ''0'']),
         Timeout StartCheckerTask, Check_lookup Null (Queue_array [orders_queue ''8''])]"]
  by (simp add: ServiceBusAzureWatcher_def orders_queue_def start_def getQueueData_cb_def
      start_settled_def start_then_def startReceivingMessages_def currentMessagesInQueue_def
      parseInt_examples readOneMessage_def start_checker_def emit_debug_def throwing_def
      checkConcurrency_def checkConcurrency_settled_def checkConcurrency_then_def
      checkConcurrency_loop.simps emit_error_def emit_throws_def ErrorMessage_def
      MAX_THREADS_EXCEEDED_def)




text \<open>
  C3. In any state reached with a positive ceiling, the answer to an unlock call
  publishes exactly one error event, of status \<open>on_unlock_message_from_azure\<close>, when the
  error is an object whose code is the string 404, and no error event for any other
  answer; the same for a delete call, with status
  \<open>on_remove_unlock_message_from_azure\<close>.
\<close>

theorem terminal_failure_publishes_once:
  assumes "1 \<le> c"
      and "s = fst (run (ServiceBusAzureWatcher qn c) evs)"
  shows "map emitted_status (filter is_emit (snd (step s (Unlock_answer msg e)))) =
           (if is_object_with_code_404 e then [Some ''on_unlock_message_from_azure''] else [])
       \<and> map emitted_status (filter is_emit (snd (step s (Delete_answer msg e)))) =
           (if is_object_with_code_404 e
            then [Some ''on_remove_unlock_message_from_azure''] else [])"
proof -
  have w: "within_ceiling s"
    using reachable_within(1)[OF assms(1)] assms(2) by simp
  show ?thesis
    using settled_within[OF w]
    by (simp add: ErrorMessage_def ON_UNLOCK_MESSAGE_FROM_AZURE_def
        ON_REMOVE_MESSAGE_FROM_AZURE_def split: option.splits)
qed

theorem terminal_failure_publishes_once_witness:
  "map emitted_status (filter is_emit (snd (step
      (fst (run (ServiceBusAzureWatcher ''orders'' 2) [Start_called]))
      (Unlock_answer (Some (Message 7)) (Obj (Str ''404'') ''Error: lock expired'')))))
     = [Some ''on_unlock_message_from_azure'']
 \<and> map emitted_status (filter is_emit (snd (step
      (fst (run (ServiceBusAzureWatcher ''orders'' 2) [Start_called]))
      (Delete_answer (Some (Message 7)) (Obj (Str ''404'') ''Error: lock expired'')))))
     = [Some ''on_remove_unlock_message_from_azure'']
 \<and> map emitted_status (filter is_emit (snd (step
      (fst (run (ServiceBusAzureWatcher ''orders'' 2) [Start_called]))
      (Delete_answer (Some (Message 7)) (Obj (Str ''500'') ''Error: server busy''))))) = []"
  using terminal_failure_publishes_once[where c = 2 and qn = "''orders''"
        and evs = "[Start_called]" and msg = "Some (Message 7)" and e = "Obj (Str ''404'') ''Error: lock expired''",
        OF _ refl]
        terminal_failure_publishes_once[where c = 2 and qn = "''orders''"
        and evs = "[Start_called]" and msg = "Some (Message 7)" and e = "Obj (Str ''500'') ''Error: server busy''",
        OF _ refl]
  by simp

text \<open>
  C4. Spin-up of a watcher with a positive ceiling that has captured a queue. If the
  parsed backlog is 0, the effects are exactly one immediate receive call (one worker
  loop). If the backlog is positive, spin-up sets exactly \<open>min C B\<close> timers that launch
  a worker loop each, and makes no receive call itself.
\<close>

theorem spin_up_launch_count:
  assumes "1 \<le> concurrency s" and "queueData s = Some q"
  shows "(currentMessagesInQueue q = 0 \<longrightarrow>
            map_option snd (startReceivingMessages s) = Some [ReceiveQueueMessage (queueName s)])
       \<and> (0 < currentMessagesInQueue q \<longrightarrow>
            map_option (\<lambda>r. int (length (filter is_launch_timer (snd r))))
              (startReceivingMessages s) = Some (min (concurrency s) (currentMessagesInQueue q))
          \<and> map_option (\<lambda>r. filter is_receive (snd r)) (startReceivingMessages s) = Some [])"
proof -
  have a: "currentMessagesInQueue q = 0 \<Longrightarrow> startReceivingMessages s =
              Some (readOneMessage (s\<lparr>isStartRunning := True, maxThreadsCreated := 1\<rparr>))"
    using assms(2) by (simp add: startReceivingMessages_def)
  have b: "readOneMessage (s\<lparr>isStartRunning := True, maxThreadsCreated := 1\<rparr>) =
      (s\<lparr>isStartRunning := True, maxThreadsCreated := 1\<rparr>, [ReceiveQueueMessage (queueName s)])"
    using assms(1) by (simp add: readOneMessage_def)
  have c: "0 < currentMessagesInQueue q \<Longrightarrow> map_option snd (startReceivingMessages s) =
      Some (replicate (nat (min (concurrency s) (currentMessagesInQueue q)))
                  (SetTimeout ReadOneMessageTask 25))"
    using startReceivingMessages_effects[OF assms(2)] by simp
  have d: "0 < currentMessagesInQueue q \<Longrightarrow>
      map_option (\<lambda>r. int (length (filter is_launch_timer (snd r))))
              (startReceivingMessages s) = Some (min (concurrency s) (currentMessagesInQueue q))
          \<and> map_option (\<lambda>r. filter is_receive (snd r)) (startReceivingMessages s) = Some []"
    using c assms(1)
    by (cases "startReceivingMessages s")
       (auto simp: filter_replicate_all filter_replicate_none)
  from a b d show ?thesis by simp
qed

theorem spin_up_launch_count_witness:
  "map_option snd (startReceivingMessages (waiting_watcher ''0'' 5))
     = Some [ReceiveQueueMessage ''orders'']
 \<and> map_option (\<lambda>r. int (length (filter is_launch_timer (snd r))))
      (startReceivingMessages (waiting_watcher ''3'' 5)) = Some 3
 \<and> map_option (\<lambda>r. int (length (filter is_launch_timer (snd r))))
      (startReceivingMessages (waiting_watcher ''8'' 5)) = Some 5"
  using spin_up_launch_count[of "waiting_watcher ''0'' 5" "orders_queue ''0''"]
        spin_up_launch_count[of "waiting_watcher ''3'' 5" "orders_queue ''3''"]
        spin_up_launch_count[of "waiting_watcher ''8'' 5" "orders_queue ''8''"]
  by (simp add: waiting_watcher_fields orders_queue_backlog del: map_option_eq_Some)

text \<open>
  C5. The code at ceiling 3 and backlog 3: the three launch timers all carry the delay
  25, where delays of 25 times the index would be 0, 25 and 50. The local variable \<open>i\<close>
  in \<open>delay = i + 25\<close> stays 0 through the loop.
\<close>

theorem spin_up_delays_are_all_25:
  "map_option snd (startReceivingMessages (waiting_watcher ''3'' 3)) =
     Some [SetTimeout ReadOneMessageTask 25, SetTimeout ReadOneMessageTask 25,
           SetTimeout ReadOneMessageTask 25]"
  by (simp add: startReceivingMessages_effects[of _ "orders_queue ''3''"]
        waiting_watcher_fields orders_queue_backlog numeral_3_eq_3)

text \<open>
  C6. A monitor tick of a watcher with a positive ceiling that observes a backlog above
  the ceiling while the counter is below it: the counter ends at the ceiling, and the
  effects are one immediate receive call for each unit of the difference (no launch
  timer), followed by the timer for the next tick.
\<close>

theorem monitor_fills_to_concurrency:
  assumes "1 \<le> concurrency s"
      and "currentMessagesInQueue q > concurrency s"
      and "maxThreadsCreated s < concurrency s"
  shows "checkConcurrency_then s (Some q) =
           (s\<lparr>queueData := Some q, maxThreadsCreated := concurrency s\<rparr>,
            replicate (nat (concurrency s - maxThreadsCreated s))
              (ReceiveQueueMessage (queueName s))
            @ [SetTimeout CheckConcurrencyTask 10000])"
proof -
  let ?s1 = "s\<lparr>queueData := Some q\<rparr>"
  have l: "checkConcurrency_loop ?s1 = (?s1\<lparr>maxThreadsCreated := concurrency ?s1\<rparr>,
      replicate (nat (concurrency ?s1 - maxThreadsCreated ?s1))
        (ReceiveQueueMessage (queueName ?s1)))"
    by (rule cc_loop_result) (use assms in simp)
  from assms l show ?thesis
    by (simp add: checkConcurrency_then_def Let_def CHECK_CONCURRENCY_TIMER_def
        thrown_replicate)
qed

text \<open>The scenario of the specification: ceiling 5, one worker, backlog 8.\<close>

theorem monitor_fills_to_concurrency_witness:
  "checkConcurrency_then ((waiting_watcher ''0'' 5)\<lparr>maxThreadsCreated := 1\<rparr>)
     (Some (orders_queue ''8'')) =
     ((waiting_watcher ''8'' 5)\<lparr>maxThreadsCreated := 5\<rparr>,
      [ReceiveQueueMessage ''orders'', ReceiveQueueMessage ''orders'',
       ReceiveQueueMessage ''orders'', ReceiveQueueMessage ''orders'',
       SetTimeout CheckConcurrencyTask 10000])"
  using monitor_fills_to_concurrency[of "(waiting_watcher ''0'' 5)\<lparr>maxThreadsCreated := 1\<rparr>"
          "orders_queue ''8''"]
  by (simp add: waiting_watcher_def ServiceBusAzureWatcher_def orders_queue_def
        currentMessagesInQueue_def parseInt_examples eval_nat_numeral)

text \<open>
  C7. When the receive callback gets the string \<open>No messages to receive\<close> as its error,
  its only effect is one timer of 500 ms that re-enters \<open>readOneMessage\<close>: no event is
  emitted.
\<close>

theorem no_messages_retries_after_500:
  "snd (receiveQueueMessage_cb s t1 t2 (Str ''No messages to receive'') msg) =
     [SetTimeout ReadOneMessageTask 500]
   \<and> snd (step s (Receive_answer t1 t2 (Str AZURE_NO_MESSAGES) msg)) =
     [SetTimeout ReadOneMessageTask 500]"
  by (simp add: receiveQueueMessage_cb_def AZURE_NO_MESSAGES_def Let_def)

text \<open>
  C8. The code on two workers: message 1 arrives at time 100, message 2 at time 200,
  then the handler of message 1 calls \<open>done()\<close> and the delete succeeds. The fields
  \<open>lastJobDoneAt\<close> and \<open>lastJobDone\<close> already hold 201 and message 2 before \<open>done\<close> is
  called, and hold the same after the delete has succeeded: they are written when a
  message arrives, and the success path of the delete writes nothing. The failure path
  of the delete does its own bookkeeping when the answer arrives: it writes
  \<open>lastJobErrorDone\<close>.
\<close>

theorem completion_fields_written_at_receive:
  "lastJobDoneAt (fst (run (waiting_watcher ''2'' 2)
      [Receive_answer 100 101 Null (Some (Message 1)),
       Receive_answer 200 201 Null (Some (Message 2))])) = Some 201
 \<and> lastJobDone (fst (run (waiting_watcher ''2'' 2)
      [Receive_answer 100 101 Null (Some (Message 1)),
       Receive_answer 200 201 Null (Some (Message 2))])) = Some (Message 2)
 \<and> lastJobDoneAt (fst (run (waiting_watcher ''2'' 2)
      [Receive_answer 100 101 Null (Some (Message 1)),
       Receive_answer 200 201 Null (Some (Message 2)),
       Done_called (Some (Message 1)) Undefined,
       Delete_answer (Some (Message 1)) Null])) = Some 201
 \<and> lastJobDone (fst (run (waiting_watcher ''2'' 2)
      [Receive_answer 100 101 Null (Some (Message 1)),
       Receive_answer 200 201 Null (Some (Message 2)),
       Done_called (Some (Message 1)) Undefined,
       Delete_answer (Some (Message 1)) Null])) = Some (Message 2)
 \<and> snd (run (waiting_watcher ''2'' 2)
      [Receive_answer 100 101 Null (Some (Message 1)),
       Receive_answer 200 201 Null (Some (Message 2)),
       Done_called (Some (Message 1)) Undefined,
       Delete_answer (Some (Message 1)) Null]) =
     [OnMessageCallback (Some (Message 1)), OnMessageCallback (Some (Message 2)),
      DeleteMessage (Some (Message 1)), ReceiveQueueMessage ''orders'']
 \<and> lastJobErrorDone (fst (run (waiting_watcher ''2'' 2)
      [Receive_answer 100 101 Null (Some (Message 1)),
       Receive_answer 200 201 Null (Some (Message 2)),
       Done_called (Some (Message 1)) Undefined,
       Delete_answer (Some (Message 1)) (Str ''timeout'')])) = Some (Rej_raw (Str ''timeout''))"
  by (simp add: waiting_watcher_def ServiceBusAzureWatcher_def receiveQueueMessage_cb_def
      AZURE_NO_MESSAGES_def done_callback_def remove_settled_def removeMessage_cb_def
      remove_then_def remove_catch_def readOneMessage_def Let_def)


text \<open>
  C10. \<open>getWatcherInfo\<close> reports \<open>maxThreadsCreated\<close> as -2 when the counter is 0, as
  it is in a freshly constructed watcher; it reports \<open>currentMessagesInQueue\<close> as -1
  when no queue has been captured, and as 0 when the count field of the captured queue
  does not parse as an integer.
\<close>

theorem getWatcherInfo_defaults:
  "(maxThreadsCreated s1 = 0 \<longrightarrow> info_maxThreadsCreated (getWatcherInfo s1) = - 2)
 \<and> info_maxThreadsCreated (getWatcherInfo (ServiceBusAzureWatcher qn c)) = - 2
 \<and> (queueData s2 = None \<longrightarrow> info_currentMessagesInQueue (getWatcherInfo s2) = - 1)
 \<and> (queueData s3 = Some q \<and> parseInt (ActiveMessageCount q) = None \<longrightarrow>
       info_currentMessagesInQueue (getWatcherInfo s3) = 0)"
  by (simp add: getWatcherInfo_def ServiceBusAzureWatcher_def currentMessagesInQueue_def)

theorem getWatcherInfo_defaults_witness:
  "info_maxThreadsCreated (getWatcherInfo ((waiting_watcher ''8'' 5)\<lparr>maxThreadsCreated := 0\<rparr>))
     = - 2
 \<and> info_currentMessagesInQueue (getWatcherInfo (ServiceBusAzureWatcher ''orders'' 5)) = - 1
 \<and> info_currentMessagesInQueue (getWatcherInfo (waiting_watcher ''n/a'' 5)) = 0"
  using getWatcherInfo_defaults[of "(waiting_watcher ''8'' 5)\<lparr>maxThreadsCreated := 0\<rparr>"
      "''orders''" 5 "ServiceBusAzureWatcher ''orders'' 5" "waiting_watcher ''n/a'' 5"
      "orders_queue ''n/a''"]
  by (simp add: waiting_watcher_def ServiceBusAzureWatcher_def orders_queue_def
      parseInt_examples)

end
